theory Spec2Isabelle
  imports Main
begin

section \<open>Python values, exceptions and diagnostics\<close>

text \<open>
  The collector works on the loosely typed mappings that the provider's SDK returns.
  A raw value is one of the shapes such a response can hold. A dictionary is an
  association list in insertion order, read by first match; its keys are strings, as
  in every response of the SDK. A string is its sequence of bytes in UTF-8. A timestamp is
  kept as the text that \<^verbatim>\<open>str()\<close> gives for it.
\<close>

datatype pyval =
    PNone
  | PBool bool
  | PInt int
  | PStr string
  | PDatetime string
  | PList "pyval list"
  | PDict "(string \<times> pyval) list"

text \<open>
  The exceptions that can occur. \<open>OtherException\<close> is any other subclass of
  \<^verbatim>\<open>Exception\<close> (named by its class, as a remote call raises them);
  \<open>NonException\<close> is a \<^verbatim>\<open>BaseException\<close> outside \<^verbatim>\<open>Exception\<close>
  (\<^verbatim>\<open>KeyboardInterrupt\<close>, \<^verbatim>\<open>SystemExit\<close>), which
  \<^verbatim>\<open>except Exception\<close> lets through.
\<close>

datatype pyexc =
    KeyError string
  | TypeError
  | ValueError
  | OtherException string
  | NonException string

fun is_Exception :: "pyexc \<Rightarrow> bool" where
  "is_Exception (NonException _) = False"
| "is_Exception _ = True"

text \<open>
  A call of the \<^verbatim>\<open>logging\<close> module. \<open>LogF l s v\<close> is an f-string message:
  the literal text \<open>s\<close> followed by the formatted value \<open>v\<close>.
\<close>

datatype level = DEBUG | INFO | ERROR

datatype 'v logmsg = Log level string | LogF level string 'v

type_synonym logline = "pyval logmsg"

text \<open>Truth value of an object in a condition (\<^verbatim>\<open>if x:\<close>).\<close>

fun truthy :: "pyval \<Rightarrow> bool" where
  "truthy PNone = False"
| "truthy (PBool b) = b"
| "truthy (PInt n) = (n \<noteq> 0)"
| "truthy (PStr s) = (s \<noteq> [])"
| "truthy (PDatetime s) = True"
| "truthy (PList xs) = (xs \<noteq> [])"
| "truthy (PDict kvs) = (kvs \<noteq> [])"

text \<open>
  \<^verbatim>\<open>obj[key]\<close> with a string key: a dictionary answers or raises
  \<^verbatim>\<open>KeyError(key)\<close>; every other shape raises \<^verbatim>\<open>TypeError\<close>.
\<close>

fun getitem :: "pyval \<Rightarrow> string \<Rightarrow> pyexc + pyval" where
  "getitem (PDict kvs) k = (case map_of kvs k of None \<Rightarrow> Inl (KeyError k) | Some v \<Rightarrow> Inr v)"
| "getitem _ k = Inl TypeError"

text \<open>
  \<^verbatim>\<open>key in obj\<close>. The source evaluates it only on objects that have already
  answered a string subscript, that is on dictionaries.
\<close>

fun has_key :: "pyval \<Rightarrow> string \<Rightarrow> bool" where
  "has_key (PDict kvs) k = (map_of kvs k \<noteq> None)"
| "has_key _ k = False"

text \<open>
  The characters of a string. A string is kept as its bytes in UTF-8, where a
  character is one byte that is no continuation byte, followed by its continuation
  bytes (\<open>0x80\<close> to \<open>0xBF\<close>).
\<close>

definition is_continuation :: "char \<Rightarrow> bool" where
  "is_continuation c = (128 \<le> (of_char c :: nat) \<and> (of_char c :: nat) < 192)"

function utf8_chars :: "string \<Rightarrow> string list" where
  "utf8_chars [] = []"
| "utf8_chars (c # cs) =
     (c # takeWhile is_continuation cs) # utf8_chars (dropWhile is_continuation cs)"
  by pat_completeness auto
termination
  by (relation "measure length") (auto simp: length_dropWhile_le less_Suc_eq_le)

text \<open>
  Iteration (\<^verbatim>\<open>for x in obj\<close>, \<^verbatim>\<open>list.extend(obj)\<close>): a list gives its
  items, a dictionary its keys, a string its characters; the other shapes raise
  \<^verbatim>\<open>TypeError\<close>.
\<close>

fun py_iter :: "pyval \<Rightarrow> pyexc + pyval list" where
  "py_iter (PList xs) = Inr xs"
| "py_iter (PDict kvs) = Inr (map (\<lambda>kv. PStr (fst kv)) kvs)"
| "py_iter (PStr s) = Inr (map PStr (utf8_chars s))"
| "py_iter _ = Inl TypeError"

section \<open>The standard library's \<^verbatim>\<open>ipaddress.ip_address\<close>\<close>

text \<open>
  \<^verbatim>\<open>modules.py\<close> imports \<^verbatim>\<open>ip_address\<close> from the standard library
  (CPython 3.11, \<^verbatim>\<open>Lib/ipaddress.py\<close>). An address object is its integer; an
  IPv6 address also carries its scope id.
\<close>

datatype ipaddr = IPv4Address int | IPv6Address int "string option"

fun split_on :: "char \<Rightarrow> string \<Rightarrow> string list" where
  "split_on sep [] = [[]]"
| "split_on sep (c # cs) =
     (if c = sep then [] # split_on sep cs
      else (case split_on sep cs of p # ps \<Rightarrow> (c # p) # ps | [] \<Rightarrow> [[c]]))"

fun join_with :: "char \<Rightarrow> string list \<Rightarrow> string" where
  "join_with sep [] = []"
| "join_with sep [p] = p"
| "join_with sep (p # q # ps) = p @ sep # join_with sep (q # ps)"

fun index_of :: "'a \<Rightarrow> 'a list \<Rightarrow> nat option" where
  "index_of x [] = None"
| "index_of x (y # ys) = (if x = y then Some 0 else map_option Suc (index_of x ys))"

definition digit_value :: "char \<Rightarrow> int option" where
  "digit_value c =
     (case index_of c ''0123456789abcdef'' of
        Some n \<Rightarrow> Some (int n)
      | None \<Rightarrow> map_option (\<lambda>n. int n + 10) (index_of c ''ABCDEF''))"

text \<open>\<^verbatim>\<open>int(s, base)\<close> on a string whose characters were checked to be digits.\<close>

definition int_of_digits :: "int \<Rightarrow> string \<Rightarrow> int" where
  "int_of_digits base s = fold (\<lambda>c n. base * n + (case digit_value c of Some d \<Rightarrow> d | None \<Rightarrow> 0)) s 0"

text \<open>\<^verbatim>\<open>str(n)\<close> and \<^verbatim>\<open>'%x' % n\<close> for an integer that is not negative.\<close>

function str_int :: "int \<Rightarrow> string" where
  "str_int n =
     (if n < 10 then [''0123456789'' ! nat n]
      else str_int (n div 10) @ [''0123456789'' ! nat (n mod 10)])"
  by pat_completeness auto
termination
  by (relation "measure nat") auto

function hex_int :: "int \<Rightarrow> string" where
  "hex_int n =
     (if n < 16 then [''0123456789abcdef'' ! nat n]
      else hex_int (n div 16) @ [''0123456789abcdef'' ! nat (n mod 16)])"
  by pat_completeness auto
termination
  by (relation "measure nat") auto

definition is_ascii_digit :: "char \<Rightarrow> bool" where
  "is_ascii_digit c = (c \<in> set ''0123456789'')"

definition is_hex_digit :: "char \<Rightarrow> bool" where
  "is_hex_digit c = (c \<in> set ''0123456789ABCDEFabcdef'')"

text \<open>\<^verbatim>\<open>_BaseV4._parse_octet\<close>; \<open>None\<close> is its \<^verbatim>\<open>ValueError\<close>.\<close>

definition parse_octet :: "string \<Rightarrow> int option" where
  "parse_octet octet_str =
     (if octet_str = [] then None
      else if \<not> list_all is_ascii_digit octet_str then None
      else if length octet_str > 3 then None
      else if octet_str \<noteq> ''0'' \<and> hd octet_str = CHR ''0'' then None
      else (let octet_int = int_of_digits 10 octet_str
            in if octet_int > 255 then None else Some octet_int))"

text \<open>\<^verbatim>\<open>_BaseV4._ip_int_from_string\<close>; \<open>None\<close> is
  \<^verbatim>\<open>AddressValueError\<close>.\<close>

definition ip4_int_from_string :: "string \<Rightarrow> int option" where
  "ip4_int_from_string ip_str =
     (if ip_str = [] then None
      else (let octets = split_on CHR ''.'' ip_str
            in if length octets \<noteq> 4 then None
               else (case those (map parse_octet octets) of
                       None \<Rightarrow> None
                     | Some bs \<Rightarrow> Some (fold (\<lambda>b n. 256 * n + b) bs 0))))"

text \<open>\<^verbatim>\<open>_BaseV4._string_from_ip_int\<close>: the four bytes, big end first, in decimal.\<close>

definition ip4_string_from_ip_int :: "int \<Rightarrow> string" where
  "ip4_string_from_ip_int ip_int =
     join_with CHR ''.''
       (map str_int [ip_int div 16777216 mod 256, ip_int div 65536 mod 256,
                     ip_int div 256 mod 256, ip_int mod 256])"

text \<open>\<^verbatim>\<open>_BaseV6._parse_hextet\<close>; \<^verbatim>\<open>int('', 16)\<close> raises as well.\<close>

definition parse_hextet :: "string \<Rightarrow> int option" where
  "parse_hextet hextet_str =
     (if \<not> list_all is_hex_digit hextet_str then None
      else if length hextet_str > 4 then None
      else if hextet_str = [] then None
      else Some (int_of_digits 16 hextet_str))"

text \<open>
  The search for the one empty part strictly inside \<open>parts\<close> (a \<^verbatim>\<open>::\<close>):
  the outer \<open>None\<close> is the error of a second one.
\<close>

definition find_skip_index :: "string list \<Rightarrow> nat option option" where
  "find_skip_index parts =
     fold (\<lambda>i acc. case acc of
                      None \<Rightarrow> None
                    | Some skip_index \<Rightarrow>
                        if parts ! i = [] then (if skip_index \<noteq> None then None else Some (Some i))
                        else Some skip_index)
          [1 ..< length parts - 1] (Some None)"

text \<open>\<^verbatim>\<open>_BaseV6._ip_int_from_string\<close>. An IPv4-style last part is replaced by its
  two hextets first.\<close>

definition ip6_int_from_string :: "string \<Rightarrow> int option" where
  "ip6_int_from_string ip_str =
     (if ip_str = [] then None
      else (let parts0 = split_on CHR '':'' ip_str in
        if length parts0 < 3 then None
        else (case (if CHR ''.'' \<in> set (last parts0)
                    then (case ip4_int_from_string (last parts0) of
                            None \<Rightarrow> None
                          | Some ipv4_int \<Rightarrow>
                              Some (butlast parts0 @ [hex_int (ipv4_int div 65536 mod 65536),
                                                      hex_int (ipv4_int mod 65536)]))
                    else Some parts0) of
                None \<Rightarrow> None
              | Some parts \<Rightarrow>
        if length parts > 9 then None
        else (case find_skip_index parts of
                None \<Rightarrow> None
              | Some skip_index \<Rightarrow>
        (case (case skip_index of
                 Some sk \<Rightarrow>
                   (let parts_hi = (if hd parts = [] then sk - 1 else sk);
                        parts_lo = (if last parts = [] then length parts - sk - 1 - 1
                                    else length parts - sk - 1)
                    in if hd parts = [] \<and> parts_hi \<noteq> 0 then None
                       else if last parts = [] \<and> parts_lo \<noteq> 0 then None
                       else if parts_hi + parts_lo > 7 then None
                       else Some (parts_hi, parts_lo, 8 - (parts_hi + parts_lo)))
               | None \<Rightarrow>
                   (if length parts \<noteq> 8 then None
                    else if hd parts = [] then None
                    else if last parts = [] then None
                    else Some (length parts, 0, 0))) of
           None \<Rightarrow> None
         | Some (parts_hi, parts_lo, parts_skipped) \<Rightarrow>
        (case those (map parse_hextet (take parts_hi parts)) of
           None \<Rightarrow> None
         | Some his \<Rightarrow>
        (case those (map parse_hextet (drop (length parts - parts_lo) parts)) of
           None \<Rightarrow> None
         | Some los \<Rightarrow>
             Some (fold (\<lambda>h n. 65536 * n + h) los
                     (fold (\<lambda>h n. 65536 * n + h) his 0 * 2 ^ (16 * parts_skipped))))))))))"

text \<open>\<^verbatim>\<open>_BaseV6._compress_hextets\<close>: the loop state is (best start, best length,
  current start, current length), with \<open>-1\<close> for no start, as in the library.\<close>

definition best_doublecolon :: "string list \<Rightarrow> int \<times> int" where
  "best_doublecolon hextets =
     (case fold (\<lambda>(index, hextet) (best_start, best_len, start, len).
                   if hextet = ''0''
                   then (let len' = len + 1;
                             start' = (if start = -1 then index else start)
                         in if len' > best_len then (start', len', start', len')
                            else (best_start, best_len, start', len'))
                   else (best_start, best_len, -1, 0))
               (zip (map int [0 ..< length hextets]) hextets) (-1, 0, -1, 0) of
        (best_start, best_len, _, _) \<Rightarrow> (best_start, best_len))"

definition compress_hextets :: "string list \<Rightarrow> string list" where
  "compress_hextets hextets =
     (case best_doublecolon hextets of (best_start, best_len) \<Rightarrow>
        if best_len > 1 then
          (let best_end = best_start + best_len;
               hextets1 = (if best_end = int (length hextets) then hextets @ [[]] else hextets);
               hextets2 = take (nat best_start) hextets1 @ [[]] @ drop (nat best_end) hextets1
           in if best_start = 0 then [] # hextets2 else hextets2)
        else hextets)"

text \<open>\<^verbatim>\<open>_BaseV6._string_from_ip_int\<close>, for an integer below \<open>2 ^ 128\<close>.\<close>

definition ip6_string_from_ip_int :: "int \<Rightarrow> string" where
  "ip6_string_from_ip_int ip_int =
     join_with CHR '':''
       (compress_hextets
          (map (\<lambda>i. hex_int (ip_int div 2 ^ (16 * (7 - i)) mod 65536)) [0 ..< 8]))"

text \<open>\<^verbatim>\<open>_BaseV6._split_scope_id\<close>: \<^verbatim>\<open>partition('%')\<close>, then the checks.\<close>

definition split_scope_id :: "string \<Rightarrow> (string \<times> string option) option" where
  "split_scope_id ip_str =
     (let addr = takeWhile (\<lambda>c. c \<noteq> CHR ''%'') ip_str;
          rest = dropWhile (\<lambda>c. c \<noteq> CHR ''%'') ip_str
      in if rest = [] then Some (addr, None)
         else if tl rest = [] \<or> CHR ''%'' \<in> set (tl rest) then None
         else Some (addr, Some (tl rest)))"

text \<open>\<^verbatim>\<open>str()\<close> of an address object.\<close>

fun str_ipaddr :: "ipaddr \<Rightarrow> string" where
  "str_ipaddr (IPv4Address ip) = ip4_string_from_ip_int ip"
| "str_ipaddr (IPv6Address ip None) = ip6_string_from_ip_int ip"
| "str_ipaddr (IPv6Address ip (Some scope_id)) =
     (if scope_id \<noteq> [] then ip6_string_from_ip_int ip @ CHR ''%'' # scope_id
      else ip6_string_from_ip_int ip)"

text \<open>
  \<^verbatim>\<open>str(address)\<close> for the argument of a constructor. The text of a list or of a
  dictionary opens with a bracket, which neither parser accepts as the start of its
  first part, so these two have no address text (\<open>None\<close>).
\<close>

fun addr_str :: "pyval \<Rightarrow> string option" where
  "addr_str (PStr s) = Some s"
| "addr_str (PDatetime s) = Some s"
| "addr_str PNone = Some ''None''"
| "addr_str _ = None"

text \<open>The constructors \<^verbatim>\<open>IPv4Address(address)\<close> and \<^verbatim>\<open>IPv6Address(address)\<close>:
  an integer (a \<^verbatim>\<open>bool\<close> is one) is range-checked, anything else is parsed from its
  text. \<open>None\<close> is \<^verbatim>\<open>AddressValueError\<close>.\<close>

fun py_int :: "pyval \<Rightarrow> int option" where
  "py_int (PInt n) = Some n"
| "py_int (PBool b) = Some (if b then 1 else 0)"
| "py_int _ = None"

definition new_IPv4Address :: "pyval \<Rightarrow> ipaddr option" where
  "new_IPv4Address address =
     (case py_int address of
        Some n \<Rightarrow> if n < 0 then None else if n > 2 ^ 32 - 1 then None else Some (IPv4Address n)
      | None \<Rightarrow>
          (case addr_str address of
             None \<Rightarrow> None
           | Some s \<Rightarrow> if CHR ''/'' \<in> set s then None
                       else map_option IPv4Address (ip4_int_from_string s)))"

definition new_IPv6Address :: "pyval \<Rightarrow> ipaddr option" where
  "new_IPv6Address address =
     (case py_int address of
        Some n \<Rightarrow> if n < 0 then None else if n > 2 ^ 128 - 1 then None
                  else Some (IPv6Address n None)
      | None \<Rightarrow>
          (case addr_str address of
             None \<Rightarrow> None
           | Some s \<Rightarrow> if CHR ''/'' \<in> set s then None
                       else (case split_scope_id s of
                               None \<Rightarrow> None
                             | Some (a, scope_id) \<Rightarrow>
                                 map_option (\<lambda>ip. IPv6Address ip scope_id) (ip6_int_from_string a))))"

text \<open>\<^verbatim>\<open>ip_address(address)\<close>: IPv4 first, then IPv6; \<open>None\<close> is the
  \<^verbatim>\<open>ValueError\<close> it raises when both refuse.\<close>

definition ip_address :: "pyval \<Rightarrow> ipaddr option" where
  "ip_address address =
     (case new_IPv4Address address of
        Some a \<Rightarrow> Some a
      | None \<Rightarrow> new_IPv6Address address)"

text \<open>\<^verbatim>\<open>ip_address(obj)\<close> on an address object: neither an integer nor bytes, so
  both constructors parse \<^verbatim>\<open>str(obj)\<close>.\<close>

definition ip_address_of_obj :: "ipaddr \<Rightarrow> ipaddr option" where
  "ip_address_of_obj obj = ip_address (PStr (str_ipaddr obj))"

section \<open>\<^verbatim>\<open>modules.py\<close>: the typed records and the conversion from raw data\<close>

text \<open>The dataclass \<^verbatim>\<open>NetworkInterface\<close>. Its three address fields default to
  \<^verbatim>\<open>None\<close>.\<close>

record NetworkInterface =
  ip_owner_id :: pyval
  public_dns_name :: pyval
  mac_address :: pyval
  network_interface_id :: pyval
  owner_id :: pyval
  private_dns_name :: pyval
  subnet_id :: pyval
  status :: pyval
  public_ip_address :: "ipaddr option"
  ipv6_address :: "ipaddr option"
  private_ip_address :: "ipaddr option"

text \<open>The dataclass \<^verbatim>\<open>Instance\<close>. Its last four fields default to the empty
  string.\<close>

record Instance =
  image_id :: pyval
  instance_id :: pyval
  network_interfaces :: "NetworkInterface list"
  state :: pyval
  launch_time :: pyval
  tags :: pyval
  cpu_details :: pyval
  instance_type :: pyval
  security_groups :: pyval
  client_token :: pyval
  state_transition_reason :: pyval
  root_device_name :: pyval
  ram_disk_id :: pyval
  platform :: pyval
  kernel_id :: pyval
  Host_id :: pyval

text \<open>
  \<^verbatim>\<open>from_raw_data_to_network_interface\<close> (lines 83 to 125). The result is
  the raised exception or the returned object, with the diagnostics logged on the way.
  The lookups come in the order in which Python evaluates them. The call of
  \<^verbatim>\<open>ip_address\<close> on the public address in line 103 stands outside every
  \<^verbatim>\<open>try\<close>; the three guarded blocks follow it. The test of line 112 is on
  an address object, which is always true (the class defines neither
  \<^verbatim>\<open>__bool__\<close> nor \<^verbatim>\<open>__len__\<close>), so the second block always runs.
\<close>

definition from_raw_data_to_network_interface ::
  "pyval \<Rightarrow> (pyexc + NetworkInterface) \<times> logline list" where
  "from_raw_data_to_network_interface raw_data =
    (case getitem raw_data ''Association'' of Inl e \<Rightarrow> (Inl e, []) | Inr association \<Rightarrow>
    (case getitem association ''IpOwnerId'' of Inl e \<Rightarrow> (Inl e, []) | Inr v_ip_owner_id \<Rightarrow>
    (case getitem association ''PublicDnsName'' of Inl e \<Rightarrow> (Inl e, []) | Inr v_public_dns_name \<Rightarrow>
    (case getitem raw_data ''MacAddress'' of Inl e \<Rightarrow> (Inl e, []) | Inr v_mac_address \<Rightarrow>
    (case getitem raw_data ''NetworkInterfaceId'' of Inl e \<Rightarrow> (Inl e, []) | Inr v_network_interface_id \<Rightarrow>
    (case getitem raw_data ''OwnerId'' of Inl e \<Rightarrow> (Inl e, []) | Inr v_owner_id \<Rightarrow>
    (case getitem raw_data ''PrivateDnsName'' of Inl e \<Rightarrow> (Inl e, []) | Inr v_private_dns_name \<Rightarrow>
    (case getitem raw_data ''SubnetId'' of Inl e \<Rightarrow> (Inl e, []) | Inr v_subnet_id \<Rightarrow>
    (case getitem raw_data ''Status'' of Inl e \<Rightarrow> (Inl e, []) | Inr v_status \<Rightarrow>
    (let parsed_interface =
       \<lparr>ip_owner_id = v_ip_owner_id, public_dns_name = v_public_dns_name,
        mac_address = v_mac_address, network_interface_id = v_network_interface_id,
        owner_id = v_owner_id, private_dns_name = v_private_dns_name,
        subnet_id = v_subnet_id, status = v_status,
        public_ip_address = None, ipv6_address = None, private_ip_address = None\<rparr> in
    (case getitem raw_data ''Ipv6Addresses'' of Inl e \<Rightarrow> (Inl e, []) | Inr v_ipv6_address \<Rightarrow>
    (case getitem association ''PublicIp'' of Inl e \<Rightarrow> (Inl e, []) | Inr v_public_ip \<Rightarrow>
    (case ip_address v_public_ip of None \<Rightarrow> (Inl ValueError, []) | Some public_ip \<Rightarrow>
    (case getitem raw_data ''PrivateIpAddress'' of Inl e \<Rightarrow> (Inl e, []) | Inr v_private_ip_address \<Rightarrow>
    (let (parsed_interface1, log1) =
           (if truthy v_ipv6_address then
              (case ip_address v_ipv6_address of
                 Some a \<Rightarrow> (parsed_interface\<lparr>ipv6_address := Some a\<rparr>, [])
               | None \<Rightarrow>
                   (parsed_interface,
                    [LogF ERROR ''ipv6 address is not valid in network interface with the id ''
                       (network_interface_id parsed_interface)]))
            else (parsed_interface, []));
         (parsed_interface2, log2) =
           (case ip_address_of_obj public_ip of
              Some a \<Rightarrow> (parsed_interface1\<lparr>public_ip_address := Some a\<rparr>, [])
            | None \<Rightarrow>
                (parsed_interface1,
                 [LogF DEBUG ''public_ip address is not valid in network interface with the id ''
                    (network_interface_id parsed_interface1)]));
         (parsed_interface3, log3) =
           (if truthy v_private_ip_address then
              (case ip_address v_private_ip_address of
                 Some a \<Rightarrow> (parsed_interface2\<lparr>private_ip_address := Some a\<rparr>, [])
               | None \<Rightarrow>
                   (parsed_interface2,
                    [LogF ERROR ''private_ip_address address is not valid in network interface with the id ''
                       (network_interface_id parsed_interface2)]))
            else (parsed_interface2, []))
     in (Inr parsed_interface3, log1 @ log2 @ log3))))))))))))))))"

text \<open>
  The loop of lines 40 to 44: every element of the iterated value is converted and
  appended; the first exception ends it.
\<close>

fun parse_interfaces ::
  "pyval list \<Rightarrow> NetworkInterface list \<Rightarrow> logline list
     \<Rightarrow> (pyexc + NetworkInterface list) \<times> logline list" where
  "parse_interfaces [] parsed_interfaces log = (Inr parsed_interfaces, log)"
| "parse_interfaces (interface # rest) parsed_interfaces log =
     (case from_raw_data_to_network_interface interface of
        (Inl e, l) \<Rightarrow> (Inl e, log @ l)
      | (Inr parsed_interface, l) \<Rightarrow>
          parse_interfaces rest (parsed_interfaces @ [parsed_interface]) (log @ l))"

text \<open>An optional key of lines 56 to 63: \<^verbatim>\<open>if k in raw_data: obj.f = raw_data[k]\<close>.\<close>

definition set_if_present ::
  "pyval \<Rightarrow> string \<Rightarrow> (pyval \<Rightarrow> Instance \<Rightarrow> Instance) \<Rightarrow> Instance \<Rightarrow> pyexc + Instance" where
  "set_if_present raw_data k assign parsed_instance =
     (if has_key raw_data k then
        (case getitem raw_data k of Inl e \<Rightarrow> Inl e | Inr v \<Rightarrow> Inr (assign v parsed_instance))
      else Inr parsed_instance)"

text \<open>\<^verbatim>\<open>from_raw_data_to_instance\<close> (lines 30 to 65).\<close>

definition from_raw_data_to_instance :: "pyval \<Rightarrow> (pyexc + Instance) \<times> logline list" where
  "from_raw_data_to_instance raw_data =
    (case getitem raw_data ''NetworkInterfaces'' of Inl e \<Rightarrow> (Inl e, []) | Inr v_interfaces \<Rightarrow>
    (case py_iter v_interfaces of Inl e \<Rightarrow> (Inl e, []) | Inr interfaces \<Rightarrow>
    (case parse_interfaces interfaces [] [] of (Inl e, log) \<Rightarrow> (Inl e, log) | (Inr parsed_interfaces, log) \<Rightarrow>
    (case getitem raw_data ''ImageId'' of Inl e \<Rightarrow> (Inl e, log) | Inr v_image_id \<Rightarrow>
    (case getitem raw_data ''InstanceId'' of Inl e \<Rightarrow> (Inl e, log) | Inr v_instance_id \<Rightarrow>
    (case getitem raw_data ''State'' of Inl e \<Rightarrow> (Inl e, log) | Inr v_state \<Rightarrow>
    (case getitem raw_data ''LaunchTime'' of Inl e \<Rightarrow> (Inl e, log) | Inr v_launch_time \<Rightarrow>
    (case getitem raw_data ''Tags'' of Inl e \<Rightarrow> (Inl e, log) | Inr v_tags \<Rightarrow>
    (case getitem raw_data ''CpuOptions'' of Inl e \<Rightarrow> (Inl e, log) | Inr v_cpu_details \<Rightarrow>
    (case getitem raw_data ''InstanceType'' of Inl e \<Rightarrow> (Inl e, log) | Inr v_instance_type \<Rightarrow>
    (case getitem raw_data ''SecurityGroups'' of Inl e \<Rightarrow> (Inl e, log) | Inr v_security_groups \<Rightarrow>
    (case getitem raw_data ''ClientToken'' of Inl e \<Rightarrow> (Inl e, log) | Inr v_client_token \<Rightarrow>
    (case getitem raw_data ''StateTransitionReason'' of Inl e \<Rightarrow> (Inl e, log) | Inr v_state_transition_reason \<Rightarrow>
    (case getitem raw_data ''RootDeviceName'' of Inl e \<Rightarrow> (Inl e, log) | Inr v_root_device_name \<Rightarrow>
    (let parsed_instance =
       \<lparr>image_id = v_image_id, instance_id = v_instance_id,
        network_interfaces = parsed_interfaces, state = v_state,
        launch_time = v_launch_time, tags = v_tags, cpu_details = v_cpu_details,
        instance_type = v_instance_type, security_groups = v_security_groups,
        client_token = v_client_token, state_transition_reason = v_state_transition_reason,
        root_device_name = v_root_device_name,
        ram_disk_id = PStr [], platform = PStr [], kernel_id = PStr [], Host_id = PStr []\<rparr> in
    (case set_if_present raw_data ''RamdiskId'' (\<lambda>v i. i\<lparr>ram_disk_id := v\<rparr>) parsed_instance of
       Inl e \<Rightarrow> (Inl e, log) | Inr parsed_instance1 \<Rightarrow>
    (case set_if_present raw_data ''PlatformDetails'' (\<lambda>v i. i\<lparr>platform := v\<rparr>) parsed_instance1 of
       Inl e \<Rightarrow> (Inl e, log) | Inr parsed_instance2 \<Rightarrow>
    (case set_if_present raw_data ''KernelId'' (\<lambda>v i. i\<lparr>kernel_id := v\<rparr>) parsed_instance2 of
       Inl e \<Rightarrow> (Inl e, log) | Inr parsed_instance3 \<Rightarrow>
    (case set_if_present raw_data ''HostId'' (\<lambda>v i. i\<lparr>Host_id := v\<rparr>) parsed_instance3 of
       Inl e \<Rightarrow> (Inl e, log) | Inr parsed_instance4 \<Rightarrow>
    (Inr parsed_instance4, log))))))))))))))))))))"

section \<open>\<^verbatim>\<open>main.py\<close>: paging a region and collecting all regions\<close>

text \<open>
  The SDK is outside the repository, so it is a parameter. \<open>boto3_client region\<close>
  is \<^verbatim>\<open>boto3.client('ec2', region_name=region)\<close>: it raises or returns a client.
  \<open>describe_instances c cursor\<close> is one call of
  \<^verbatim>\<open>client.describe_instances\<close> on the client in state \<open>c\<close>, without
  arguments (\<open>None\<close>) or with \<^verbatim>\<open>NextToken=cursor\<close>: it raises or returns a
  response, and leaves the client in a new state.
\<close>

type_synonym 'c describe = "'c \<Rightarrow> pyval option \<Rightarrow> (pyexc + pyval) \<times> 'c"

text \<open>The inner loop of lines 18 to 20 and 25 to 26, over the reservations still to
  visit.\<close>

fun extend_instances :: "pyval list \<Rightarrow> pyval list \<Rightarrow> pyexc + pyval list" where
  "extend_instances [] instances = Inr instances"
| "extend_instances (reservation # rest) instances =
     (case getitem reservation ''Instances'' of Inl e \<Rightarrow> Inl e | Inr v \<Rightarrow>
     (case py_iter v of Inl e \<Rightarrow> Inl e | Inr found \<Rightarrow>
        extend_instances rest (instances @ found)))"

definition extend_from_response :: "pyval \<Rightarrow> pyval list \<Rightarrow> pyexc + pyval list" where
  "extend_from_response response instances =
     (case getitem response ''Reservations'' of Inl e \<Rightarrow> Inl e | Inr v \<Rightarrow>
     (case py_iter v of Inl e \<Rightarrow> Inl e | Inr reservations \<Rightarrow>
        extend_instances reservations instances))"

text \<open>The \<^verbatim>\<open>while\<close> loop of lines 22 to 26. It ends only when a response has no
  \<^verbatim>\<open>NextToken\<close> or something raises, so it is a partial function: \<open>None\<close> is
  a run that never returns.\<close>

partial_function (option) pull_next ::
  "'c describe \<Rightarrow> 'c \<Rightarrow> pyval \<Rightarrow> pyval list \<Rightarrow> ((pyexc + pyval list) \<times> 'c) option" where
  "pull_next describe_instances c response instances =
     (if has_key response ''NextToken'' then
        (case getitem response ''NextToken'' of
           Inl e \<Rightarrow> Some (Inl e, c)
         | Inr token \<Rightarrow>
             (case describe_instances c (Some token) of
                (Inl e, c') \<Rightarrow> Some (Inl e, c')
              | (Inr response', c') \<Rightarrow>
                  (case extend_from_response response' instances of
                     Inl e \<Rightarrow> Some (Inl e, c')
                   | Inr instances' \<Rightarrow> pull_next describe_instances c' response' instances')))
      else Some (Inr instances, c))"

declare pull_next.simps [code]

text \<open>\<^verbatim>\<open>describe_instances_paginated\<close> (lines 8 to 27).\<close>

definition describe_instances_paginated ::
  "'c describe \<Rightarrow> 'c \<Rightarrow> ((pyexc + pyval list) \<times> 'c) option" where
  "describe_instances_paginated describe_instances client =
     (case describe_instances client None of
        (Inl e, c') \<Rightarrow> Some (Inl e, c')
      | (Inr response, c') \<Rightarrow>
          (case extend_from_response response [] of
             Inl e \<Rightarrow> Some (Inl e, c')
           | Inr instances \<Rightarrow> pull_next describe_instances c' response instances))"

definition all_aws_regions :: "string list" where
  "all_aws_regions =
     [''us-east-2'', ''us-east-1'', ''us-west-1'', ''us-west-2'', ''af-south-1'', ''ap-east-1'',
      ''ap-south-1'', ''ap-northeast-3'', ''ap-northeast-2'', ''ap-southeast-1'',
      ''ap-southeast-2'', ''ap-northeast-1'', ''ca-central-1'', ''eu-central-1'', ''eu-west-1'',
      ''eu-west-2'', ''eu-south-1'', ''eu-west-3'', ''eu-north-1'', ''me-south-1'', ''sa-east-1'']"

text \<open>
  The loop over the regions (lines 47 to 57). The client is made before the
  \<^verbatim>\<open>try\<close>; the \<^verbatim>\<open>try\<close> holds the paging, the extension of the
  accumulator and the debug line; \<^verbatim>\<open>except Exception\<close> logs the error line and
  goes on.
\<close>

fun pull_regions ::
  "(string \<Rightarrow> pyexc + 'c) \<Rightarrow> 'c describe \<Rightarrow> string list \<Rightarrow> pyval list \<Rightarrow> logline list
     \<Rightarrow> ((pyexc + pyval list) \<times> logline list) option" where
  "pull_regions boto3_client describe_instances [] all_aws_instances log =
     Some (Inr all_aws_instances, log)"
| "pull_regions boto3_client describe_instances (region # rest) all_aws_instances log =
     (case boto3_client region of
        Inl e \<Rightarrow> Some (Inl e, log)
      | Inr ec2 \<Rightarrow>
          (case describe_instances_paginated describe_instances ec2 of
             None \<Rightarrow> None
           | Some (Inr regions_instances, _) \<Rightarrow>
               pull_regions boto3_client describe_instances rest
                 (all_aws_instances @ regions_instances)
                 (log @ [Log DEBUG (''pulled instances from region '' @ region)])
           | Some (Inl e, _) \<Rightarrow>
               if is_Exception e then
                 pull_regions boto3_client describe_instances rest all_aws_instances
                   (log @ [Log ERROR (''Could not pull instances from region '' @ region)])
               else Some (Inl e, log)))"

text \<open>The loop of lines 61 to 65: nothing is caught here.\<close>

fun parse_instances ::
  "pyval list \<Rightarrow> Instance list \<Rightarrow> logline list \<Rightarrow> (pyexc + Instance list) \<times> logline list" where
  "parse_instances [] parsed_instances log = (Inr parsed_instances, log)"
| "parse_instances (instance_dict # rest) parsed_instances log =
     (case from_raw_data_to_instance instance_dict of
        (Inl e, l) \<Rightarrow> (Inl e, log @ l)
      | (Inr instance, l) \<Rightarrow> parse_instances rest (parsed_instances @ [instance]) (log @ l))"

text \<open>The body of \<^verbatim>\<open>get_all_aws_instances\<close> once the regions are chosen (lines
  46 to 67).\<close>

definition collect_regions ::
  "(string \<Rightarrow> pyexc + 'c) \<Rightarrow> 'c describe \<Rightarrow> string list
     \<Rightarrow> ((pyexc + Instance list) \<times> logline list) option" where
  "collect_regions boto3_client describe_instances regions =
     (case pull_regions boto3_client describe_instances regions []
             [Log INFO ''started pulling instances''] of
        None \<Rightarrow> None
      | Some (Inl e, log) \<Rightarrow> Some (Inl e, log)
      | Some (Inr all_aws_instances, log) \<Rightarrow>
          (case parse_instances all_aws_instances []
                  (log @ [Log INFO ''finished successfully pulling instances'',
                          Log INFO ''processing raw data into objects'']) of
             (Inl e, log') \<Rightarrow> Some (Inl e, log')
           | (Inr parsed_instances, log') \<Rightarrow>
               Some (Inr parsed_instances, log' @ [Log INFO ''finished processing the raw data''])))"

text \<open>\<^verbatim>\<open>get_all_aws_instances\<close> (lines 30 to 67): \<^verbatim>\<open>None\<close> and the empty
  list are both false in \<^verbatim>\<open>if specific_regions:\<close>.\<close>

definition get_all_aws_instances ::
  "(string \<Rightarrow> pyexc + 'c) \<Rightarrow> 'c describe \<Rightarrow> string list option
     \<Rightarrow> ((pyexc + Instance list) \<times> logline list) option" where
  "get_all_aws_instances boto3_client describe_instances specific_regions =
     (let regions = (case specific_regions of
                       None \<Rightarrow> all_aws_regions
                     | Some rs \<Rightarrow> if rs \<noteq> [] then rs else all_aws_regions)
      in collect_regions boto3_client describe_instances regions)"

subsection \<open>A scripted client\<close>

text \<open>
  A test double for the listing capability: it holds the outcomes still to give (a
  response, or an exception to raise) and the cursors it has been called with. A call
  records its cursor and gives the next outcome; with none left it raises.
\<close>

record scripted =
  pending :: "(pyexc + pyval) list"
  calls :: "pyval option list"

definition scripted_describe :: "scripted describe" where
  "scripted_describe c cursor =
     (case pending c of
        [] \<Rightarrow> (Inl (OtherException ''StopIteration''), c\<lparr>calls := calls c @ [cursor]\<rparr>)
      | outcome # rest \<Rightarrow> (outcome, \<lparr>pending = rest, calls = calls c @ [cursor]\<rparr>))"

text \<open>A response page with the given reservation groupings (each a list of instance
  records) and, if any, the continuation token.\<close>

definition page :: "pyval list list \<Rightarrow> pyval option \<Rightarrow> pyval" where
  "page groups token =
     PDict ((''Reservations'', PList (map (\<lambda>g. PDict [(''Instances'', PList g)]) groups))
            # (case token of None \<Rightarrow> [] | Some t \<Rightarrow> [(''NextToken'', t)]))"

subsection \<open>Example records\<close>

text \<open>
  The interface record and the instance record of the end-to-end example, with the
  value under \<^verbatim>\<open>PublicIp\<close> and the three values that the example leaves open
  (\<^verbatim>\<open>State\<close>, \<^verbatim>\<open>LaunchTime\<close>, \<^verbatim>\<open>CpuOptions\<close>) as parameters.
\<close>

definition example_interface :: "pyval \<Rightarrow> pyval" where
  "example_interface public_ip =
     PDict [(''Association'', PDict [(''IpOwnerId'', PStr ''o''), (''PublicDnsName'', PStr []),
                                     (''PublicIp'', public_ip)]),
            (''MacAddress'', PStr ''00:00''), (''NetworkInterfaceId'', PStr ''eni-1''),
            (''OwnerId'', PStr ''o''), (''PrivateDnsName'', PStr []), (''SubnetId'', PStr ''s-1''),
            (''Status'', PStr ''in-use''), (''Ipv6Addresses'', PStr []),
            (''PrivateIpAddress'', PStr ''10.0.0.5'')]"

definition example_record :: "pyval \<Rightarrow> pyval \<Rightarrow> pyval \<Rightarrow> pyval \<Rightarrow> pyval" where
  "example_record st t cpu public_ip =
     PDict [(''ImageId'', PStr ''ami-1''), (''InstanceId'', PStr ''i-1''),
            (''NetworkInterfaces'', PList [example_interface public_ip]),
            (''State'', st), (''LaunchTime'', t), (''Tags'', PList []), (''CpuOptions'', cpu),
            (''InstanceType'', PStr ''t2.micro''), (''SecurityGroups'', PList []),
            (''ClientToken'', PStr []), (''StateTransitionReason'', PStr []),
            (''RootDeviceName'', PStr ''/dev/sda1'')]"

text \<open>A dictionary without one of its keys (\<^verbatim>\<open>del d[k]\<close> on a copy).\<close>

fun without_key :: "string \<Rightarrow> pyval \<Rightarrow> pyval" where
  "without_key k (PDict kvs) = PDict (filter (\<lambda>kv. fst kv \<noteq> k) kvs)"
| "without_key k v = v"

text \<open>A dictionary with one more item (\<^verbatim>\<open>d[k] = v\<close> on a copy).\<close>

fun with_item :: "string \<Rightarrow> pyval \<Rightarrow> pyval \<Rightarrow> pyval" where
  "with_item k v (PDict kvs) = PDict (filter (\<lambda>kv. fst kv \<noteq> k) kvs @ [(k, v)])"
| "with_item k v x = x"

text \<open>
  Two client factories for a run of the collector. \<open>one_client_refused\<close> gives a
  client with a single page for \<^verbatim>\<open>us-east-2\<close> and fails to make one for any
  other region, as the SDK does for a region name that is not well formed;
  \<open>one_listing_denied\<close> gives the same for \<^verbatim>\<open>us-east-2\<close> and, for any other
  region, a client whose listing is refused.
\<close>

definition served :: "pyval list \<Rightarrow> scripted" where
  "served records = \<lparr>pending = [Inr (page [records] None)], calls = []\<rparr>"


definition one_listing_denied :: "pyval list \<Rightarrow> string \<Rightarrow> pyexc + scripted" where
  "one_listing_denied records region =
     (if region = ''us-east-2'' then Inr (served records)
      else Inr \<lparr>pending = [Inl (OtherException ''ClientError'')], calls = []\<rparr>)"

definition sample_record :: "pyval \<Rightarrow> pyval" where
  "sample_record public_ip =
     example_record (PDict [(''Code'', PInt 16), (''Name'', PStr ''running'')])
       (PDatetime ''2021-03-04 05:06:07+00:00'')
       (PDict [(''CoreCount'', PInt 1), (''ThreadsPerCore'', PInt 1)]) public_ip"

section \<open>The conversion on an explicit store\<close>

text \<open>
  Python passes the raw record by reference, and the objects that the conversion
  builds keep references into it. To speak about what a call changes, the two
  functions of \<^verbatim>\<open>modules.py\<close> are written once more over a store of objects.
  A value is a scalar or a reference; a list, a dictionary and a dataclass object
  (its class name and its attributes) live in the store. An address is an index into
  the store, and a new object goes to its end.
\<close>

datatype sval =
    SNone
  | SBool bool
  | SInt int
  | SStr string
  | SDatetime string
  | SAddress ipaddr
  | SRef nat

datatype obj =
    OList "sval list"
  | ODict "(string \<times> sval) list"
  | OObject string "(string \<times> sval) list"

type_synonym heap = "obj list"

definition deref :: "heap \<Rightarrow> nat \<Rightarrow> obj option" where
  "deref h a = (if a < length h then Some (h ! a) else None)"

definition alloc :: "heap \<Rightarrow> obj \<Rightarrow> nat \<times> heap" where
  "alloc h ob = (length h, h @ [ob])"

text \<open>\<^verbatim>\<open>obj.name = v\<close> on a dataclass object and \<^verbatim>\<open>lst.append(v)\<close> on a list:
  the two writes of \<^verbatim>\<open>modules.py\<close>.\<close>

definition setattr :: "heap \<Rightarrow> nat \<Rightarrow> string \<Rightarrow> sval \<Rightarrow> heap" where
  "setattr h a name v =
     (case deref h a of
        Some (OObject cls attrs) \<Rightarrow>
          h[a := OObject cls (map (\<lambda>kv. if fst kv = name then (name, v) else kv) attrs)]
      | _ \<Rightarrow> h)"

definition list_append :: "heap \<Rightarrow> nat \<Rightarrow> sval \<Rightarrow> heap" where
  "list_append h a v =
     (case deref h a of
        Some (OList xs) \<Rightarrow> h[a := OList (xs @ [v])]
      | _ \<Rightarrow> h)"

text \<open>\<^verbatim>\<open>obj.name\<close> for an attribute that the object was built with.\<close>

definition getattr :: "heap \<Rightarrow> nat \<Rightarrow> string \<Rightarrow> sval" where
  "getattr h a name =
     (case deref h a of
        Some (OObject cls attrs) \<Rightarrow> (case map_of attrs name of Some v \<Rightarrow> v | None \<Rightarrow> SNone)
      | _ \<Rightarrow> SNone)"

text \<open>The reads: subscript with a string key, membership of a key, iteration, truth
  value, \<^verbatim>\<open>ip_address\<close>. They follow the ones on values above.\<close>

definition st_getitem :: "heap \<Rightarrow> sval \<Rightarrow> string \<Rightarrow> pyexc + sval" where
  "st_getitem h v k =
     (case v of
        SRef a \<Rightarrow>
          (case deref h a of
             Some (ODict kvs) \<Rightarrow>
               (case map_of kvs k of None \<Rightarrow> Inl (KeyError k) | Some x \<Rightarrow> Inr x)
           | _ \<Rightarrow> Inl TypeError)
      | _ \<Rightarrow> Inl TypeError)"

definition st_has_key :: "heap \<Rightarrow> sval \<Rightarrow> string \<Rightarrow> bool" where
  "st_has_key h v k =
     (case v of
        SRef a \<Rightarrow> (case deref h a of Some (ODict kvs) \<Rightarrow> map_of kvs k \<noteq> None | _ \<Rightarrow> False)
      | _ \<Rightarrow> False)"

definition st_iter :: "heap \<Rightarrow> sval \<Rightarrow> pyexc + sval list" where
  "st_iter h v =
     (case v of
        SRef a \<Rightarrow>
          (case deref h a of
             Some (OList xs) \<Rightarrow> Inr xs
           | Some (ODict kvs) \<Rightarrow> Inr (map (\<lambda>kv. SStr (fst kv)) kvs)
           | _ \<Rightarrow> Inl TypeError)
      | SStr s \<Rightarrow> Inr (map SStr (utf8_chars s))
      | _ \<Rightarrow> Inl TypeError)"

definition st_truthy :: "heap \<Rightarrow> sval \<Rightarrow> bool" where
  "st_truthy h v =
     (case v of
        SNone \<Rightarrow> False
      | SBool b \<Rightarrow> b
      | SInt n \<Rightarrow> n \<noteq> 0
      | SStr s \<Rightarrow> s \<noteq> []
      | SDatetime s \<Rightarrow> True
      | SAddress a \<Rightarrow> True
      | SRef a \<Rightarrow>
          (case deref h a of
             Some (OList xs) \<Rightarrow> xs \<noteq> []
           | Some (ODict kvs) \<Rightarrow> kvs \<noteq> []
           | _ \<Rightarrow> True))"

text \<open>The text of a list, of a dictionary or of a dataclass object is no address.\<close>

definition st_ip_address :: "sval \<Rightarrow> ipaddr option" where
  "st_ip_address v =
     (case v of
        SNone \<Rightarrow> ip_address PNone
      | SBool b \<Rightarrow> ip_address (PBool b)
      | SInt n \<Rightarrow> ip_address (PInt n)
      | SStr s \<Rightarrow> ip_address (PStr s)
      | SDatetime s \<Rightarrow> ip_address (PDatetime s)
      | SAddress a \<Rightarrow> ip_address_of_obj a
      | SRef a \<Rightarrow> None)"

text \<open>A guarded block (\<^verbatim>\<open>try: obj.name = ip_address(v)\<close>, with the
  \<^verbatim>\<open>except ValueError\<close> that logs the id of the interface).\<close>

definition st_try_parse ::
  "heap \<Rightarrow> nat \<Rightarrow> string \<Rightarrow> sval \<Rightarrow> level \<Rightarrow> string \<Rightarrow> heap \<times> sval logmsg list" where
  "st_try_parse h parsed_interface name v lvl msg =
     (case st_ip_address v of
        Some a \<Rightarrow> (setattr h parsed_interface name (SAddress a), [])
      | None \<Rightarrow> (h, [LogF lvl msg (getattr h parsed_interface ''network_interface_id'')]))"

text \<open>\<^verbatim>\<open>from_raw_data_to_network_interface\<close> on the store: the result is the
  exception or the reference to the new object, the diagnostics, and the store after
  the call.\<close>

definition st_from_raw_data_to_network_interface ::
  "heap \<Rightarrow> sval \<Rightarrow> (pyexc + sval) \<times> sval logmsg list \<times> heap" where
  "st_from_raw_data_to_network_interface h raw_data =
    (case st_getitem h raw_data ''Association'' of Inl e \<Rightarrow> (Inl e, [], h) | Inr association \<Rightarrow>
    (case st_getitem h association ''IpOwnerId'' of Inl e \<Rightarrow> (Inl e, [], h) | Inr v_ip_owner_id \<Rightarrow>
    (case st_getitem h association ''PublicDnsName'' of Inl e \<Rightarrow> (Inl e, [], h) | Inr v_public_dns_name \<Rightarrow>
    (case st_getitem h raw_data ''MacAddress'' of Inl e \<Rightarrow> (Inl e, [], h) | Inr v_mac_address \<Rightarrow>
    (case st_getitem h raw_data ''NetworkInterfaceId'' of Inl e \<Rightarrow> (Inl e, [], h) | Inr v_network_interface_id \<Rightarrow>
    (case st_getitem h raw_data ''OwnerId'' of Inl e \<Rightarrow> (Inl e, [], h) | Inr v_owner_id \<Rightarrow>
    (case st_getitem h raw_data ''PrivateDnsName'' of Inl e \<Rightarrow> (Inl e, [], h) | Inr v_private_dns_name \<Rightarrow>
    (case st_getitem h raw_data ''SubnetId'' of Inl e \<Rightarrow> (Inl e, [], h) | Inr v_subnet_id \<Rightarrow>
    (case st_getitem h raw_data ''Status'' of Inl e \<Rightarrow> (Inl e, [], h) | Inr v_status \<Rightarrow>
    (case alloc h (OObject ''NetworkInterface''
             [(''ip_owner_id'', v_ip_owner_id), (''public_dns_name'', v_public_dns_name),
              (''mac_address'', v_mac_address), (''network_interface_id'', v_network_interface_id),
              (''owner_id'', v_owner_id), (''private_dns_name'', v_private_dns_name),
              (''subnet_id'', v_subnet_id), (''status'', v_status),
              (''public_ip_address'', SNone), (''ipv6_address'', SNone),
              (''private_ip_address'', SNone)]) of (parsed_interface, h1) \<Rightarrow>
    (case st_getitem h1 raw_data ''Ipv6Addresses'' of Inl e \<Rightarrow> (Inl e, [], h1) | Inr v_ipv6_address \<Rightarrow>
    (case st_getitem h1 association ''PublicIp'' of Inl e \<Rightarrow> (Inl e, [], h1) | Inr v_public_ip \<Rightarrow>
    (case st_ip_address v_public_ip of None \<Rightarrow> (Inl ValueError, [], h1) | Some public_ip \<Rightarrow>
    (case st_getitem h1 raw_data ''PrivateIpAddress'' of Inl e \<Rightarrow> (Inl e, [], h1) | Inr v_private_ip_address \<Rightarrow>
    (case (if st_truthy h1 v_ipv6_address then
             st_try_parse h1 parsed_interface ''ipv6_address'' v_ipv6_address ERROR
               ''ipv6 address is not valid in network interface with the id ''
           else (h1, [])) of (h2, log1) \<Rightarrow>
    (case (if st_truthy h2 (SAddress public_ip) then
             st_try_parse h2 parsed_interface ''public_ip_address'' (SAddress public_ip) DEBUG
               ''public_ip address is not valid in network interface with the id ''
           else (h2, [])) of (h3, log2) \<Rightarrow>
    (case (if st_truthy h3 v_private_ip_address then
             st_try_parse h3 parsed_interface ''private_ip_address'' v_private_ip_address ERROR
               ''private_ip_address address is not valid in network interface with the id ''
           else (h3, [])) of (h4, log3) \<Rightarrow>
    (Inr (SRef parsed_interface), log1 @ log2 @ log3, h4))))))))))))))))))"

text \<open>The loop of lines 40 to 44 on the store, over the items that the iterated object
  held when the loop began; \<open>parsed_interfaces\<close> is the address of the list that
  line 38 made.\<close>

fun st_parse_interfaces ::
  "heap \<Rightarrow> sval list \<Rightarrow> nat \<Rightarrow> sval logmsg list \<Rightarrow> (pyexc + unit) \<times> sval logmsg list \<times> heap" where
  "st_parse_interfaces h [] parsed_interfaces log = (Inr (), log, h)"
| "st_parse_interfaces h (interface # rest) parsed_interfaces log =
     (case st_from_raw_data_to_network_interface h interface of
        (Inl e, l, h') \<Rightarrow> (Inl e, log @ l, h')
      | (Inr parsed_interface, l, h') \<Rightarrow>
          st_parse_interfaces (list_append h' parsed_interfaces parsed_interface) rest
            parsed_interfaces (log @ l))"

definition st_set_if_present ::
  "heap \<Rightarrow> sval \<Rightarrow> string \<Rightarrow> nat \<Rightarrow> string \<Rightarrow> pyexc + heap" where
  "st_set_if_present h raw_data k parsed_instance name =
     (if st_has_key h raw_data k then
        (case st_getitem h raw_data k of
           Inl e \<Rightarrow> Inl e
         | Inr v \<Rightarrow> Inr (setattr h parsed_instance name v))
      else Inr h)"

text \<open>\<^verbatim>\<open>from_raw_data_to_instance\<close> on the store.\<close>

definition st_from_raw_data_to_instance ::
  "heap \<Rightarrow> sval \<Rightarrow> (pyexc + sval) \<times> sval logmsg list \<times> heap" where
  "st_from_raw_data_to_instance h raw_data =
    (case alloc h (OList []) of (parsed_interfaces, h0) \<Rightarrow>
    (case st_getitem h0 raw_data ''NetworkInterfaces'' of Inl e \<Rightarrow> (Inl e, [], h0) | Inr v_interfaces \<Rightarrow>
    (case st_iter h0 v_interfaces of Inl e \<Rightarrow> (Inl e, [], h0) | Inr interfaces \<Rightarrow>
    (case st_parse_interfaces h0 interfaces parsed_interfaces [] of (r, log, h1) \<Rightarrow>
    (case r of Inl e \<Rightarrow> (Inl e, log, h1) | Inr u \<Rightarrow>
    (case st_getitem h1 raw_data ''ImageId'' of Inl e \<Rightarrow> (Inl e, log, h1) | Inr v_image_id \<Rightarrow>
    (case st_getitem h1 raw_data ''InstanceId'' of Inl e \<Rightarrow> (Inl e, log, h1) | Inr v_instance_id \<Rightarrow>
    (case st_getitem h1 raw_data ''State'' of Inl e \<Rightarrow> (Inl e, log, h1) | Inr v_state \<Rightarrow>
    (case st_getitem h1 raw_data ''LaunchTime'' of Inl e \<Rightarrow> (Inl e, log, h1) | Inr v_launch_time \<Rightarrow>
    (case st_getitem h1 raw_data ''Tags'' of Inl e \<Rightarrow> (Inl e, log, h1) | Inr v_tags \<Rightarrow>
    (case st_getitem h1 raw_data ''CpuOptions'' of Inl e \<Rightarrow> (Inl e, log, h1) | Inr v_cpu_details \<Rightarrow>
    (case st_getitem h1 raw_data ''InstanceType'' of Inl e \<Rightarrow> (Inl e, log, h1) | Inr v_instance_type \<Rightarrow>
    (case st_getitem h1 raw_data ''SecurityGroups'' of Inl e \<Rightarrow> (Inl e, log, h1) | Inr v_security_groups \<Rightarrow>
    (case st_getitem h1 raw_data ''ClientToken'' of Inl e \<Rightarrow> (Inl e, log, h1) | Inr v_client_token \<Rightarrow>
    (case st_getitem h1 raw_data ''StateTransitionReason'' of Inl e \<Rightarrow> (Inl e, log, h1) | Inr v_state_transition_reason \<Rightarrow>
    (case st_getitem h1 raw_data ''RootDeviceName'' of Inl e \<Rightarrow> (Inl e, log, h1) | Inr v_root_device_name \<Rightarrow>
    (case alloc h1 (OObject ''Instance''
             [(''image_id'', v_image_id), (''instance_id'', v_instance_id),
              (''network_interfaces'', SRef parsed_interfaces), (''state'', v_state),
              (''launch_time'', v_launch_time), (''tags'', v_tags),
              (''cpu_details'', v_cpu_details), (''instance_type'', v_instance_type),
              (''security_groups'', v_security_groups), (''client_token'', v_client_token),
              (''state_transition_reason'', v_state_transition_reason),
              (''root_device_name'', v_root_device_name),
              (''ram_disk_id'', SStr []), (''platform'', SStr []), (''kernel_id'', SStr []),
              (''Host_id'', SStr [])]) of (parsed_instance, h2) \<Rightarrow>
    (case st_set_if_present h2 raw_data ''RamdiskId'' parsed_instance ''ram_disk_id'' of
       Inl e \<Rightarrow> (Inl e, log, h2) | Inr h3 \<Rightarrow>
    (case st_set_if_present h3 raw_data ''PlatformDetails'' parsed_instance ''platform'' of
       Inl e \<Rightarrow> (Inl e, log, h3) | Inr h4 \<Rightarrow>
    (case st_set_if_present h4 raw_data ''KernelId'' parsed_instance ''kernel_id'' of
       Inl e \<Rightarrow> (Inl e, log, h4) | Inr h5 \<Rightarrow>
    (case st_set_if_present h5 raw_data ''HostId'' parsed_instance ''Host_id'' of
       Inl e \<Rightarrow> (Inl e, log, h5) | Inr h6 \<Rightarrow>
    (Inr (SRef parsed_instance), log, h6))))))))))))))))))))))"

text \<open>The example record laid out in a store: the association block, the
  interface record, the list of interfaces, the other containers and, last, the
  instance record at address 7.\<close>

definition example_heap :: "sval \<Rightarrow> heap" where
  "example_heap public_ip =
     [ODict [(''IpOwnerId'', SStr ''o''), (''PublicDnsName'', SStr []), (''PublicIp'', public_ip)],
      ODict [(''Association'', SRef 0), (''MacAddress'', SStr ''00:00''),
             (''NetworkInterfaceId'', SStr ''eni-1''), (''OwnerId'', SStr ''o''),
             (''PrivateDnsName'', SStr []), (''SubnetId'', SStr ''s-1''),
             (''Status'', SStr ''in-use''), (''Ipv6Addresses'', SStr []),
             (''PrivateIpAddress'', SStr ''10.0.0.5'')],
      OList [SRef 1],
      ODict [(''Code'', SInt 16), (''Name'', SStr ''running'')],
      OList [],
      ODict [(''CoreCount'', SInt 1), (''ThreadsPerCore'', SInt 1)],
      OList [],
      ODict [(''ImageId'', SStr ''ami-1''), (''InstanceId'', SStr ''i-1''),
             (''NetworkInterfaces'', SRef 2), (''State'', SRef 3),
             (''LaunchTime'', SDatetime ''2021-03-04 05:06:07+00:00''), (''Tags'', SRef 4),
             (''CpuOptions'', SRef 5), (''InstanceType'', SStr ''t2.micro''),
             (''SecurityGroups'', SRef 6), (''ClientToken'', SStr []),
             (''StateTransitionReason'', SStr []), (''RootDeviceName'', SStr ''/dev/sda1'')]]"

section \<open>Address fields of an interface record\<close>

text \<open>
  C1. The claim is that each of the three address values of an interface record
  that has all its keys is handled without aborting: absent when empty, parsed when
  valid, absent with one diagnostic when invalid. The code does so for
  \<^verbatim>\<open>Ipv6Addresses\<close> and \<^verbatim>\<open>PrivateIpAddress\<close>, but it calls
  \<^verbatim>\<open>ip_address\<close> on \<^verbatim>\<open>PublicIp\<close> in line 103, before the guarded
  block of lines 112 to 117: on the example interface with an empty or an invalid
  \<^verbatim>\<open>PublicIp\<close> the conversion raises \<^verbatim>\<open>ValueError\<close> and logs nothing.
\<close>

theorem public_ip_parse_unguarded:
  "from_raw_data_to_network_interface (example_interface (PStr [])) = (Inl ValueError, [])
   \<and> from_raw_data_to_network_interface (example_interface (PStr ''not-an-ip''))
       = (Inl ValueError, [])"
  by code_simp

text \<open>
  What the conversion of an interface record does once its twelve lookups have
  succeeded: the unguarded parse of \<^verbatim>\<open>PublicIp\<close> decides whether it returns;
  if it does, the other two address values are skipped when false, parsed when valid,
  and logged with the id of the interface when invalid.
\<close>

lemma interface_addresses:
  assumes "getitem raw ''Association'' = Inr association"
    and "getitem association ''IpOwnerId'' = Inr v1"
    and "getitem association ''PublicDnsName'' = Inr v2"
    and "getitem raw ''MacAddress'' = Inr v3"
    and "getitem raw ''NetworkInterfaceId'' = Inr v4"
    and "getitem raw ''OwnerId'' = Inr v5"
    and "getitem raw ''PrivateDnsName'' = Inr v6"
    and "getitem raw ''SubnetId'' = Inr v7"
    and "getitem raw ''Status'' = Inr v8"
    and "getitem raw ''Ipv6Addresses'' = Inr w6"
    and "getitem association ''PublicIp'' = Inr wpub"
    and "getitem raw ''PrivateIpAddress'' = Inr wpriv"
  shows "from_raw_data_to_network_interface raw =
     (case ip_address wpub of
        None \<Rightarrow> (Inl ValueError, [])
      | Some pub \<Rightarrow>
          (Inr \<lparr>ip_owner_id = v1, public_dns_name = v2, mac_address = v3,
                 network_interface_id = v4, owner_id = v5, private_dns_name = v6,
                 subnet_id = v7, status = v8,
                 public_ip_address = ip_address_of_obj pub,
                 ipv6_address = (if truthy w6 then ip_address w6 else None),
                 private_ip_address = (if truthy wpriv then ip_address wpriv else None)\<rparr>,
           (if truthy w6 \<and> ip_address w6 = None
            then [LogF ERROR ''ipv6 address is not valid in network interface with the id '' v4]
            else [])
           @ (if ip_address_of_obj pub = None
              then [LogF DEBUG ''public_ip address is not valid in network interface with the id '' v4]
              else [])
           @ (if truthy wpriv \<and> ip_address wpriv = None
              then [LogF ERROR ''private_ip_address address is not valid in network interface with the id '' v4]
              else [])))"
proof (cases "ip_address wpub")
  case None
  then show ?thesis by (simp add: from_raw_data_to_network_interface_def assms)
next
  case (Some pub)
  then show ?thesis
    by (cases "ip_address w6"; cases "ip_address wpriv"; cases "ip_address_of_obj pub")
       (simp_all add: from_raw_data_to_network_interface_def assms)
qed

lemma interface_missing_key:
  assumes "map_of kvs ''Association'' = Some (PDict akvs)"
    and "map_of akvs ''IpOwnerId'' \<noteq> None" and "map_of akvs ''PublicDnsName'' \<noteq> None"
    and k: "k \<in> set [''MacAddress'', ''NetworkInterfaceId'', ''OwnerId'', ''PrivateDnsName'',
                        ''SubnetId'', ''Status'', ''Ipv6Addresses'']"
    and "map_of kvs k = None"
    and "\<forall>k' \<in> set [''MacAddress'', ''NetworkInterfaceId'', ''OwnerId'', ''PrivateDnsName'',
                        ''SubnetId'', ''Status'', ''Ipv6Addresses''].
            k' \<noteq> k \<longrightarrow> map_of kvs k' \<noteq> None"
  shows "from_raw_data_to_network_interface (PDict kvs) = (Inl (KeyError k), [])"
  using k assms(1,2,3,5,6)
  by (simp only: set_simps insert_iff empty_iff, elim disjE)
     (auto simp: from_raw_data_to_network_interface_def)

lemma interface_missing_association:
  "map_of kvs ''Association'' = None
     \<Longrightarrow> from_raw_data_to_network_interface (PDict kvs) = (Inl (KeyError ''Association''), [])"
  "map_of kvs ''Association'' = Some (PDict akvs) \<Longrightarrow> map_of akvs ''IpOwnerId'' = None
     \<Longrightarrow> from_raw_data_to_network_interface (PDict kvs) = (Inl (KeyError ''IpOwnerId''), [])"
  "map_of kvs ''Association'' = Some (PDict akvs) \<Longrightarrow> map_of akvs ''IpOwnerId'' \<noteq> None
     \<Longrightarrow> map_of akvs ''PublicDnsName'' = None
     \<Longrightarrow> from_raw_data_to_network_interface (PDict kvs) = (Inl (KeyError ''PublicDnsName''), [])"
  by (auto simp: from_raw_data_to_network_interface_def)

section \<open>Conversion of an instance record\<close>

text \<open>
  C3. The claim is that every record with all required keys is converted into an
  \<^verbatim>\<open>Instance\<close>. The example record with an empty \<^verbatim>\<open>PublicIp\<close> has every
  key, and its conversion raises \<^verbatim>\<open>ValueError\<close> from line 103 instead of
  returning an object.
\<close>

theorem complete_record_not_converted:
  "from_raw_data_to_instance (example_record st t cpu (PStr [])) = (Inl ValueError, [])"
  by code_simp

text \<open>
  C4. The claim is that a record without one required key fails with the error that
  names this key. The example record without \<^verbatim>\<open>ImageId\<close> and with an empty
  \<^verbatim>\<open>PublicIp\<close> fails with \<^verbatim>\<open>ValueError\<close> from line 103, and so does the
  example interface without \<^verbatim>\<open>PrivateIpAddress\<close>; with a valid
  \<^verbatim>\<open>PublicIp\<close> both fail with the \<^verbatim>\<open>KeyError\<close> of the missing key.
\<close>

theorem missing_key_masked_by_public_ip:
  "from_raw_data_to_instance (without_key ''ImageId'' (example_record st t cpu (PStr [])))
     = (Inl ValueError, [])
   \<and> from_raw_data_to_network_interface
         (without_key ''PrivateIpAddress'' (example_interface (PStr [])))
     = (Inl ValueError, [])
   \<and> from_raw_data_to_instance
         (without_key ''ImageId'' (example_record st t cpu (PStr ''198.51.100.5'')))
     = (Inl (KeyError ''ImageId''), [])
   \<and> from_raw_data_to_network_interface
         (without_key ''PrivateIpAddress'' (example_interface (PStr ''198.51.100.5'')))
     = (Inl (KeyError ''PrivateIpAddress''), [])"
  by code_simp

text \<open>
  C8. On the record of the end-to-end example the conversion succeeds: the public
  address is 198.51.100.5, the private address is 10.0.0.5, there is no IPv6 address,
  and \<^verbatim>\<open>ram_disk_id\<close> is the empty string. The public address is parsed from the
  text in line 103, and the parsed object is parsed again in line 114 with the same
  result.
\<close>

theorem end_to_end_example:
  "from_raw_data_to_instance (example_record st t cpu (PStr ''198.51.100.5'')) =
     (Inr \<lparr>image_id = PStr ''ami-1'', instance_id = PStr ''i-1'',
            network_interfaces =
              [\<lparr>ip_owner_id = PStr ''o'', public_dns_name = PStr [],
                mac_address = PStr ''00:00'', network_interface_id = PStr ''eni-1'',
                owner_id = PStr ''o'', private_dns_name = PStr [],
                subnet_id = PStr ''s-1'', status = PStr ''in-use'',
                public_ip_address = Some (IPv4Address 3325256709),
                ipv6_address = None,
                private_ip_address = Some (IPv4Address 167772165)\<rparr>],
            state = st, launch_time = t, tags = PList [], cpu_details = cpu,
            instance_type = PStr ''t2.micro'', security_groups = PList [],
            client_token = PStr [], state_transition_reason = PStr [],
            root_device_name = PStr ''/dev/sda1'', ram_disk_id = PStr [],
            platform = PStr [], kernel_id = PStr [], Host_id = PStr []\<rparr>, [])
   \<and> ip_address (PStr ''198.51.100.5'') = Some (IPv4Address 3325256709)
   \<and> ip_address_of_obj (IPv4Address 3325256709) = Some (IPv4Address 3325256709)
   \<and> str_ipaddr (IPv4Address 3325256709) = ''198.51.100.5''
   \<and> str_ipaddr (IPv4Address 167772165) = ''10.0.0.5''"
  by code_simp

subsection \<open>Fields of a converted instance\<close>

lemma has_key_iff_getitem: "has_key raw k \<longleftrightarrow> (\<exists>v. getitem raw k = Inr v)"
  by (cases raw) (auto split: option.splits)

lemma set_if_present_eq:
  "set_if_present raw k assign i =
     Inr (case getitem raw k of Inr v \<Rightarrow> assign v i | Inl e \<Rightarrow> i)"
  by (auto simp: set_if_present_def has_key_iff_getitem split: sum.splits)

lemma from_raw_data_to_instance_Inr:
  assumes ok: "from_raw_data_to_instance raw = (Inr inst, log)"
  shows "\<exists>v xs v1 v2 v3 v4 v5 v6 v7 v8 v9 v10 v11.
           getitem raw ''NetworkInterfaces'' = Inr v \<and> py_iter v = Inr xs
         \<and> parse_interfaces xs [] [] = (Inr (network_interfaces inst), log)
         \<and> getitem raw ''ImageId'' = Inr v1 \<and> getitem raw ''InstanceId'' = Inr v2
         \<and> getitem raw ''State'' = Inr v3 \<and> getitem raw ''LaunchTime'' = Inr v4
         \<and> getitem raw ''Tags'' = Inr v5 \<and> getitem raw ''CpuOptions'' = Inr v6
         \<and> getitem raw ''InstanceType'' = Inr v7 \<and> getitem raw ''SecurityGroups'' = Inr v8
         \<and> getitem raw ''ClientToken'' = Inr v9 \<and> getitem raw ''StateTransitionReason'' = Inr v10
         \<and> getitem raw ''RootDeviceName'' = Inr v11
         \<and> inst = \<lparr>image_id = v1, instance_id = v2,
                    network_interfaces = network_interfaces inst, state = v3,
                    launch_time = v4, tags = v5, cpu_details = v6, instance_type = v7,
                    security_groups = v8, client_token = v9, state_transition_reason = v10,
                    root_device_name = v11,
                    ram_disk_id = (case getitem raw ''RamdiskId'' of Inr w \<Rightarrow> w | Inl e \<Rightarrow> PStr []),
                    platform = (case getitem raw ''PlatformDetails'' of Inr w \<Rightarrow> w | Inl e \<Rightarrow> PStr []),
                    kernel_id = (case getitem raw ''KernelId'' of Inr w \<Rightarrow> w | Inl e \<Rightarrow> PStr []),
                    Host_id = (case getitem raw ''HostId'' of Inr w \<Rightarrow> w | Inl e \<Rightarrow> PStr [])\<rparr>"
proof -
  note d = from_raw_data_to_instance_def
  obtain v where a: "getitem raw ''NetworkInterfaces'' = Inr v"
    using ok by (cases "getitem raw ''NetworkInterfaces''") (simp_all add: d)
  obtain xs where b: "py_iter v = Inr xs"
    using ok a by (cases "py_iter v") (simp_all add: d)
  obtain ps l where c: "parse_interfaces xs [] [] = (Inr ps, l)"
    using ok a b
    by (cases "parse_interfaces xs [] []"; cases "fst (parse_interfaces xs [] [])")
       (simp_all add: d)
  obtain v1 where f1: "getitem raw ''ImageId'' = Inr v1"
    using ok a b c by (cases "getitem raw ''ImageId''") (simp_all add: d)
  obtain v2 where f2: "getitem raw ''InstanceId'' = Inr v2"
    using ok a b c f1 by (cases "getitem raw ''InstanceId''") (simp_all add: d)
  obtain v3 where f3: "getitem raw ''State'' = Inr v3"
    using ok a b c f1 f2 by (cases "getitem raw ''State''") (simp_all add: d)
  obtain v4 where f4: "getitem raw ''LaunchTime'' = Inr v4"
    using ok a b c f1 f2 f3 by (cases "getitem raw ''LaunchTime''") (simp_all add: d)
  obtain v5 where f5: "getitem raw ''Tags'' = Inr v5"
    using ok a b c f1 f2 f3 f4 by (cases "getitem raw ''Tags''") (simp_all add: d)
  obtain v6 where f6: "getitem raw ''CpuOptions'' = Inr v6"
    using ok a b c f1 f2 f3 f4 f5 by (cases "getitem raw ''CpuOptions''") (simp_all add: d)
  obtain v7 where f7: "getitem raw ''InstanceType'' = Inr v7"
    using ok a b c f1 f2 f3 f4 f5 f6 by (cases "getitem raw ''InstanceType''") (simp_all add: d)
  obtain v8 where f8: "getitem raw ''SecurityGroups'' = Inr v8"
    using ok a b c f1 f2 f3 f4 f5 f6 f7
    by (cases "getitem raw ''SecurityGroups''") (simp_all add: d)
  obtain v9 where f9: "getitem raw ''ClientToken'' = Inr v9"
    using ok a b c f1 f2 f3 f4 f5 f6 f7 f8
    by (cases "getitem raw ''ClientToken''") (simp_all add: d)
  obtain v10 where f10: "getitem raw ''StateTransitionReason'' = Inr v10"
    using ok a b c f1 f2 f3 f4 f5 f6 f7 f8 f9
    by (cases "getitem raw ''StateTransitionReason''") (simp_all add: d)
  obtain v11 where f11: "getitem raw ''RootDeviceName'' = Inr v11"
    using ok a b c f1 f2 f3 f4 f5 f6 f7 f8 f9 f10
    by (cases "getitem raw ''RootDeviceName''") (simp_all add: d)
  have e: "l = log \<and> inst = \<lparr>image_id = v1, instance_id = v2,
                    network_interfaces = ps, state = v3,
                    launch_time = v4, tags = v5, cpu_details = v6, instance_type = v7,
                    security_groups = v8, client_token = v9, state_transition_reason = v10,
                    root_device_name = v11,
                    ram_disk_id = (case getitem raw ''RamdiskId'' of Inr w \<Rightarrow> w | Inl e \<Rightarrow> PStr []),
                    platform = (case getitem raw ''PlatformDetails'' of Inr w \<Rightarrow> w | Inl e \<Rightarrow> PStr []),
                    kernel_id = (case getitem raw ''KernelId'' of Inr w \<Rightarrow> w | Inl e \<Rightarrow> PStr []),
                    Host_id = (case getitem raw ''HostId'' of Inr w \<Rightarrow> w | Inl e \<Rightarrow> PStr [])\<rparr>"
    using ok a b c f1 f2 f3 f4 f5 f6 f7 f8 f9 f10 f11
    by (cases "getitem raw ''RamdiskId''"; cases "getitem raw ''PlatformDetails''";
        cases "getitem raw ''KernelId''"; cases "getitem raw ''HostId''")
       (auto simp add: d set_if_present_eq)
  then have n: "network_interfaces inst = ps" by simp
  show ?thesis
    using a b c f1 f2 f3 f4 f5 f6 f7 f8 f9 f10 f11 e n by simp
qed

text \<open>
  C6. Whenever a record is converted, each of \<^verbatim>\<open>ram_disk_id\<close>,
  \<^verbatim>\<open>platform\<close>, \<^verbatim>\<open>kernel_id\<close> and \<^verbatim>\<open>Host_id\<close> holds the raw value of
  its key (\<^verbatim>\<open>RamdiskId\<close>, \<^verbatim>\<open>PlatformDetails\<close>, \<^verbatim>\<open>KernelId\<close>,
  \<^verbatim>\<open>HostId\<close>) if the key is present and the empty string if it is absent. The
  eleven other copied fields are never defaulted: each holds the value of a key that
  is present.
\<close>

theorem optional_fields_by_presence:
  assumes "from_raw_data_to_instance raw = (Inr inst, log)"
  shows "(if has_key raw ''RamdiskId'' then getitem raw ''RamdiskId'' = Inr (ram_disk_id inst)
          else ram_disk_id inst = PStr [])
       \<and> (if has_key raw ''PlatformDetails'' then getitem raw ''PlatformDetails'' = Inr (platform inst)
          else platform inst = PStr [])
       \<and> (if has_key raw ''KernelId'' then getitem raw ''KernelId'' = Inr (kernel_id inst)
          else kernel_id inst = PStr [])
       \<and> (if has_key raw ''HostId'' then getitem raw ''HostId'' = Inr (Host_id inst)
          else Host_id inst = PStr [])
       \<and> getitem raw ''ImageId'' = Inr (image_id inst)
       \<and> getitem raw ''InstanceId'' = Inr (instance_id inst)
       \<and> getitem raw ''State'' = Inr (state inst)
       \<and> getitem raw ''LaunchTime'' = Inr (launch_time inst)
       \<and> getitem raw ''Tags'' = Inr (tags inst)
       \<and> getitem raw ''CpuOptions'' = Inr (cpu_details inst)
       \<and> getitem raw ''InstanceType'' = Inr (instance_type inst)
       \<and> getitem raw ''SecurityGroups'' = Inr (security_groups inst)
       \<and> getitem raw ''ClientToken'' = Inr (client_token inst)
       \<and> getitem raw ''StateTransitionReason'' = Inr (state_transition_reason inst)
       \<and> getitem raw ''RootDeviceName'' = Inr (root_device_name inst)"
proof -
  from from_raw_data_to_instance_Inr [OF assms]
  obtain v1 v2 v3 v4 v5 v6 v7 v8 v9 v10 v11 ps where
    f: "getitem raw ''ImageId'' = Inr v1" "getitem raw ''InstanceId'' = Inr v2"
       "getitem raw ''State'' = Inr v3" "getitem raw ''LaunchTime'' = Inr v4"
       "getitem raw ''Tags'' = Inr v5" "getitem raw ''CpuOptions'' = Inr v6"
       "getitem raw ''InstanceType'' = Inr v7" "getitem raw ''SecurityGroups'' = Inr v8"
       "getitem raw ''ClientToken'' = Inr v9" "getitem raw ''StateTransitionReason'' = Inr v10"
       "getitem raw ''RootDeviceName'' = Inr v11"
   and i: "inst = \<lparr>image_id = v1, instance_id = v2,
                    network_interfaces = ps, state = v3,
                    launch_time = v4, tags = v5, cpu_details = v6, instance_type = v7,
                    security_groups = v8, client_token = v9, state_transition_reason = v10,
                    root_device_name = v11,
                    ram_disk_id = (case getitem raw ''RamdiskId'' of Inr w \<Rightarrow> w | Inl e \<Rightarrow> PStr []),
                    platform = (case getitem raw ''PlatformDetails'' of Inr w \<Rightarrow> w | Inl e \<Rightarrow> PStr []),
                    kernel_id = (case getitem raw ''KernelId'' of Inr w \<Rightarrow> w | Inl e \<Rightarrow> PStr []),
                    Host_id = (case getitem raw ''HostId'' of Inr w \<Rightarrow> w | Inl e \<Rightarrow> PStr [])\<rparr>"
    by blast
  have o: "\<And>k. (if has_key raw k then getitem raw k = Inr (case getitem raw k of Inr w \<Rightarrow> w | Inl e \<Rightarrow> PStr [])
             else (case getitem raw k of Inr w \<Rightarrow> w | Inl e \<Rightarrow> PStr []) = PStr [])"
    by (auto simp: has_key_iff_getitem split: sum.splits)
  have r: "ram_disk_id inst = (case getitem raw ''RamdiskId'' of Inr w \<Rightarrow> w | Inl e \<Rightarrow> PStr [])"
    and p: "platform inst = (case getitem raw ''PlatformDetails'' of Inr w \<Rightarrow> w | Inl e \<Rightarrow> PStr [])"
    and k: "kernel_id inst = (case getitem raw ''KernelId'' of Inr w \<Rightarrow> w | Inl e \<Rightarrow> PStr [])"
    and h: "Host_id inst = (case getitem raw ''HostId'' of Inr w \<Rightarrow> w | Inl e \<Rightarrow> PStr [])"
    by (subst i, simp)+
  have q: "image_id inst = v1" "instance_id inst = v2" "state inst = v3" "launch_time inst = v4"
    "tags inst = v5" "cpu_details inst = v6" "instance_type inst = v7" "security_groups inst = v8"
    "client_token inst = v9" "state_transition_reason inst = v10" "root_device_name inst = v11"
    by (subst i, simp)+
  show ?thesis
    unfolding r p k h q using f o [of "''RamdiskId''"] o [of "''PlatformDetails''"]
      o [of "''KernelId''"] o [of "''HostId''"]
    by simp
qed

theorem optional_fields_by_presence_witness:
  "has_key (with_item ''HostId'' (PStr ''h-1'') (with_item ''RamdiskId'' (PStr ''ari-1'') (sample_record (PStr ''198.51.100.5'')))) ''RamdiskId''
   \<and> \<not> has_key (with_item ''HostId'' (PStr ''h-1'') (with_item ''RamdiskId'' (PStr ''ari-1'') (sample_record (PStr ''198.51.100.5'')))) ''KernelId''
   \<and> (\<exists>inst log. from_raw_data_to_instance (with_item ''HostId'' (PStr ''h-1'') (with_item ''RamdiskId'' (PStr ''ari-1'') (sample_record (PStr ''198.51.100.5'')))) = (Inr inst, log)
        \<and> ram_disk_id inst = PStr ''ari-1'' \<and> platform inst = PStr [] \<and> kernel_id inst = PStr []
        \<and> Host_id inst = PStr ''h-1'')"
proof -
  let ?raw = "with_item ''HostId'' (PStr ''h-1'') (with_item ''RamdiskId'' (PStr ''ari-1'') (sample_record (PStr ''198.51.100.5'')))"
  obtain r l where c: "from_raw_data_to_instance ?raw = (r, l)"
    by (cases "from_raw_data_to_instance ?raw")
  have "\<not> isl (fst (from_raw_data_to_instance ?raw))" by code_simp
  then obtain inst where i: "r = Inr inst" using c by (cases r) simp_all
  have k: "has_key ?raw ''RamdiskId''" "\<not> has_key ?raw ''PlatformDetails''"
    "\<not> has_key ?raw ''KernelId''" "has_key ?raw ''HostId''"
    by code_simp+
  have g: "getitem ?raw ''RamdiskId'' = Inr (PStr ''ari-1'')" "getitem ?raw ''HostId'' = Inr (PStr ''h-1'')"
    by code_simp+
  from optional_fields_by_presence [of ?raw inst l] c i k g
  show ?thesis by simp
qed

text \<open>
  The list of converted interfaces has one element for each interface record, and
  a record whose interfaces are converted and that lacks one of the other required
  keys fails with the \<^verbatim>\<open>KeyError\<close> of that key.
\<close>

lemma parse_interfaces_acc:
  "parse_interfaces xs acc log =
     (case parse_interfaces xs [] [] of
        (Inl e, l) \<Rightarrow> (Inl e, log @ l)
      | (Inr ps, l) \<Rightarrow> (Inr (acc @ ps), log @ l))"
proof (induction xs arbitrary: acc log)
  case Nil
  show ?case by simp
next
  case (Cons x xs)
  obtain r l where c: "from_raw_data_to_network_interface x = (r, l)"
    by (cases "from_raw_data_to_network_interface x")
  show ?case
  proof (cases r)
    case (Inl e)
    then show ?thesis using c by simp
  next
    case (Inr p)
    show ?thesis
      using c Inr
      by (simp add: Cons.IH [of "acc @ [p]" "log @ l"] Cons.IH [of "[p]" "l"]
            split: prod.splits sum.splits)
  qed
qed

lemma parse_interfaces_length:
  "parse_interfaces xs [] [] = (Inr ps, l) \<Longrightarrow> length ps = length xs"
proof (induction xs arbitrary: ps l)
  case Nil
  then show ?case by simp
next
  case (Cons x xs)
  obtain r l1 where c: "from_raw_data_to_network_interface x = (r, l1)"
    by (cases "from_raw_data_to_network_interface x")
  show ?case
  proof (cases r)
    case (Inl e)
    then show ?thesis using c Cons.prems by simp
  next
    case (Inr p)
    obtain r2 l2 where d: "parse_interfaces xs [] [] = (r2, l2)"
      by (cases "parse_interfaces xs [] []")
    have e: "parse_interfaces (x # xs) [] [] =
               (case r2 of Inl e \<Rightarrow> (Inl e, l1 @ l2) | Inr qs \<Rightarrow> (Inr (p # qs), l1 @ l2))"
      using c Inr d by (simp add: parse_interfaces_acc [of xs "[p]" l1] split: sum.splits)
    show ?thesis
    proof (cases r2)
      case (Inl e2)
      then show ?thesis using e Cons.prems by simp
    next
      case (Inr qs)
      then have "length qs = length xs" using Cons.IH d by simp
      then show ?thesis using e Inr Cons.prems by auto
    qed
  qed
qed

lemma network_interfaces_length:
  assumes "from_raw_data_to_instance raw = (Inr inst, log)"
  shows "\<exists>v xs. getitem raw ''NetworkInterfaces'' = Inr v \<and> py_iter v = Inr xs
           \<and> length (network_interfaces inst) = length xs"
  using from_raw_data_to_instance_Inr [OF assms] parse_interfaces_length by blast

lemma instance_missing_key:
  assumes "map_of kvs ''NetworkInterfaces'' = Some v" and "py_iter v = Inr xs"
    and "parse_interfaces xs [] [] = (Inr ps, l)"
    and k: "k \<in> set [''ImageId'', ''InstanceId'', ''State'', ''LaunchTime'', ''Tags'',
                        ''CpuOptions'', ''InstanceType'', ''SecurityGroups'', ''ClientToken'',
                        ''StateTransitionReason'', ''RootDeviceName'']"
    and "map_of kvs k = None"
    and "\<forall>k' \<in> set [''ImageId'', ''InstanceId'', ''State'', ''LaunchTime'', ''Tags'',
                        ''CpuOptions'', ''InstanceType'', ''SecurityGroups'', ''ClientToken'',
                        ''StateTransitionReason'', ''RootDeviceName''].
            k' \<noteq> k \<longrightarrow> map_of kvs k' \<noteq> None"
  shows "from_raw_data_to_instance (PDict kvs) = (Inl (KeyError k), l)"
  using k assms(1,2,3,5,6)
  by (simp only: set_simps insert_iff empty_iff, elim disjE)
     (auto simp: from_raw_data_to_instance_def)


section \<open>Paging\<close>

lemma extend_instances_groups:
  "extend_instances (map (\<lambda>g. PDict [(''Instances'', PList g)]) groups) instances
     = Inr (instances @ concat groups)"
  by (induction groups arbitrary: instances) simp_all

lemma extend_from_response_page:
  "extend_from_response (page groups token) instances = Inr (instances @ concat groups)"
  by (simp add: extend_from_response_def page_def extend_instances_groups)

lemma has_key_page:
  "has_key (page groups token) ''NextToken'' = (token \<noteq> None)"
  by (cases token) (simp_all add: page_def)

lemma getitem_page:
  "getitem (page groups (Some t)) ''NextToken'' = Inr t"
  by (simp add: page_def)

lemma pull_next_last_page:
  "pull_next describe_instances c (page groups None) instances = Some (Inr instances, c)"
  by (subst pull_next.simps) (simp add: has_key_page)

lemma pull_next_scripted:
  "pull_next scripted_describe
     \<lparr>pending = map (\<lambda>(g, t). Inr (page g (Some t))) ps @ Inr (page gl None) # rest, calls = cs\<rparr>
     (page g0 (Some t0)) instances
   = Some (Inr (instances @ concat (map (\<lambda>(g, t). concat g) ps) @ concat gl),
           \<lparr>pending = rest, calls = cs @ Some t0 # map (\<lambda>(g, t). Some t) ps\<rparr>)"
proof (induction ps arbitrary: cs g0 t0 instances)
  case Nil
  show ?case
    by (subst pull_next.simps)
       (simp add: has_key_page getitem_page scripted_describe_def extend_from_response_page
          pull_next_last_page)
next
  case (Cons p ps)
  obtain g t where p: "p = (g, t)" by (cases p)
  show ?case
    by (subst pull_next.simps)
       (simp add: p has_key_page getitem_page scripted_describe_def extend_from_response_page
          Cons.IH)
qed

text \<open>
  C5. A client that answers with any pages carrying a continuation token and then
  with one page without it is called once per page: first without a cursor, then with
  the token of the page before; the result holds the records of every reservation
  grouping of every page, in order, and no further answer is taken. With three pages
  there are exactly three calls.
\<close>

theorem paging_follows_the_cursor:
  "describe_instances_paginated scripted_describe
     \<lparr>pending = map (\<lambda>(g, t). Inr (page g (Some t))) ps @ Inr (page gl None) # rest, calls = []\<rparr>
   = Some (Inr (concat (map (\<lambda>(g, t). concat g) ps) @ concat gl),
           \<lparr>pending = rest, calls = None # map (\<lambda>(g, t). Some t) ps\<rparr>)"
proof (cases ps)
  case Nil
  then show ?thesis
    by (simp add: describe_instances_paginated_def scripted_describe_def
          extend_from_response_page pull_next_last_page)
next
  case (Cons p ps')
  obtain g t where p: "p = (g, t)" by (cases p)
  show ?thesis
    by (simp add: Cons p describe_instances_paginated_def scripted_describe_def
          extend_from_response_page pull_next_scripted)
qed

theorem three_pages:
  "describe_instances_paginated scripted_describe
     \<lparr>pending = [Inr (page [[PStr ''i-1''], [PStr ''i-2'']] (Some (PStr ''t1''))),
                 Inr (page [[PStr ''i-3'']] (Some (PStr ''t2''))),
                 Inr (page [[], [PStr ''i-4'', PStr ''i-5'']] None)], calls = []\<rparr>
   = Some (Inr [PStr ''i-1'', PStr ''i-2'', PStr ''i-3'', PStr ''i-4'', PStr ''i-5''],
           \<lparr>pending = [], calls = [None, Some (PStr ''t1''), Some (PStr ''t2'')]\<rparr>)
   \<and> length [None, Some (PStr ''t1''), Some (PStr ''t2'')] = 3"
  using paging_follows_the_cursor
          [of "[([[PStr ''i-1''], [PStr ''i-2'']], PStr ''t1''), ([[PStr ''i-3'']], PStr ''t2'')]"
              "[[], [PStr ''i-4'', PStr ''i-5'']]" "[]"]
  by simp

section \<open>The regions of a run\<close>



section \<open>Collecting the regions\<close>







subsection \<open>Failures of the conversion\<close>










text \<open>
  The case left open above: a record without \<^verbatim>\<open>ImageId\<close> whose interface has
  an empty \<^verbatim>\<open>PublicIp\<close> ends the run with the \<^verbatim>\<open>ValueError\<close> of line 103,
  raised before the missing key is read.
\<close>

lemma missing_key_masked_in_run:
  "get_all_aws_instances
     (one_listing_denied [without_key ''ImageId'' (sample_record (PStr []))])
     scripted_describe (Some [''us-east-2'', ''us-west-2''])
   = Some (Inl ValueError,
           [Log INFO ''started pulling instances'',
            Log DEBUG ''pulled instances from region us-east-2'',
            Log ERROR ''Could not pull instances from region us-west-2'',
            Log INFO ''finished successfully pulling instances'',
            Log INFO ''processing raw data into objects''])"
  by code_simp

section \<open>What a conversion changes\<close>

lemma length_setattr [simp]: "length (setattr h a name v) = length h"
  by (simp add: setattr_def split: option.split obj.split)

lemma take_setattr [simp]: "n \<le> a \<Longrightarrow> take n (setattr h a name v) = take n h"
  by (simp add: setattr_def split: option.split obj.split)

lemma length_list_append [simp]: "length (list_append h a v) = length h"
  by (simp add: list_append_def split: option.split obj.split)

lemma take_list_append [simp]: "n \<le> a \<Longrightarrow> take n (list_append h a v) = take n h"
  by (simp add: list_append_def split: option.split obj.split)

lemma guarded_frame:
  assumes "(if c then st_try_parse h a name v lvl msg else (h, [])) = (h', l)"
    and "n \<le> a"
  shows "length h' = length h \<and> take n h' = take n h"
  using assms by (auto simp: st_try_parse_def split: option.splits if_splits)

lemma sum_caseI: "(\<And>e. P (f e)) \<Longrightarrow> (\<And>v. P (g v)) \<Longrightarrow> P (case s of Inl e \<Rightarrow> f e | Inr v \<Rightarrow> g v)"
  by (cases s) simp_all

lemma option_caseI: "P a \<Longrightarrow> (\<And>v. P (g v)) \<Longrightarrow> P (case s of None \<Rightarrow> a | Some v \<Rightarrow> g v)"
  by (cases s) simp_all

lemma prod_caseI: "(\<And>a b. p = (a, b) \<Longrightarrow> P (f a b)) \<Longrightarrow> P (case p of (a, b) \<Rightarrow> f a b)"
  by (cases p) simp

lemma network_interface_frame:
  assumes n: "n \<le> length h"
  shows "length h \<le> length (snd (snd (st_from_raw_data_to_network_interface h raw)))
         \<and> take n (snd (snd (st_from_raw_data_to_network_interface h raw))) = take n h"
proof -
  let ?P = "\<lambda>res :: (pyexc + sval) \<times> sval logmsg list \<times> heap.
              length h \<le> length (snd (snd res)) \<and> take n (snd (snd res)) = take n h"
  have "?P (st_from_raw_data_to_network_interface h raw)"
    unfolding st_from_raw_data_to_network_interface_def alloc_def
    apply (intro sum_caseI [where P = ?P] option_caseI [where P = ?P] prod_caseI [where P = ?P])
                     apply (simp_all add: n)
    subgoal premises p
      using guarded_frame [OF p(2), of n] guarded_frame [OF p(3), of n]
        guarded_frame [OF p(4), of n] p(1) n
      by simp
    done
  then show ?thesis .
qed


lemma parse_interfaces_frame:
  assumes "n \<le> length h" and "n \<le> a"
  shows "length h \<le> length (snd (snd (st_parse_interfaces h xs a log)))
         \<and> take n (snd (snd (st_parse_interfaces h xs a log))) = take n h"
  using assms
proof (induction xs arbitrary: h log)
  case Nil
  then show ?case by simp
next
  case (Cons x xs)
  obtain r l h' where c: "st_from_raw_data_to_network_interface h x = (r, l, h')"
    by (cases "st_from_raw_data_to_network_interface h x") auto
  from network_interface_frame [OF Cons.prems(1), of x] c
  have f: "length h \<le> length h'" "take n h' = take n h" by simp_all
  show ?case
  proof (cases r)
    case (Inl e)
    then show ?thesis using c f by simp
  next
    case (Inr p)
    have "n \<le> length (list_append h' a p)" using f Cons.prems by simp
    from Cons.IH [OF this Cons.prems(2), of "log @ l"] f Cons.prems
    show ?thesis using c Inr by simp
  qed
qed

lemma st_set_if_present_frame:
  assumes "st_set_if_present h raw k a name = Inr h'" and "n \<le> a"
  shows "length h' = length h \<and> take n h' = take n h"
  using assms by (auto simp: st_set_if_present_def split: if_splits sum.splits)

lemma sum_caseI_eq:
  "(\<And>e. s = Inl e \<Longrightarrow> P (f e)) \<Longrightarrow> (\<And>v. s = Inr v \<Longrightarrow> P (g v))
     \<Longrightarrow> P (case s of Inl e \<Rightarrow> f e | Inr v \<Rightarrow> g v)"
  by (cases s) simp_all

lemma instance_frame:
  "length h \<le> length (snd (snd (st_from_raw_data_to_instance h raw)))
   \<and> take (length h) (snd (snd (st_from_raw_data_to_instance h raw))) = h"
proof -
  let ?P = "\<lambda>res :: (pyexc + sval) \<times> sval logmsg list \<times> heap.
              length h \<le> length (snd (snd res)) \<and> take (length h) (snd (snd res)) = h"
  have loop: "length h \<le> length h1 \<and> take (length h) h1 = h"
    if "st_parse_interfaces (h @ [ob]) xs (length h) [] = (r, lh)" and "lh = (l, h1)"
    for ob xs r lh l h1
    using parse_interfaces_frame [of "length h" "h @ [ob]" "length h" xs "[]"] that by simp
  have "?P (st_from_raw_data_to_instance h raw)"
    unfolding st_from_raw_data_to_instance_def alloc_def prod.case
    apply (rule sum_caseI [where P = ?P], simp)
    apply (rule sum_caseI [where P = ?P], simp)
    apply (rule prod_caseI [where P = ?P])
    apply (rule prod_caseI [where P = ?P])
    apply (drule (1) loop)
    apply (intro sum_caseI_eq [where P = ?P] prod_caseI [where P = ?P])
                     apply simp_all
       apply (auto dest!: st_set_if_present_frame [where n = "length h"])
    done
  then show ?thesis .
qed

text \<open>
  C10. Neither conversion changes an object that existed before the call: for every
  store and every argument, whether the call returns or raises, the store after the
  call begins with the store before it. What it adds are the objects it has built;
  the raw record, its interface records and their association blocks are as they
  were.
\<close>

theorem raw_input_unchanged:
  "take (length h) (snd (snd (st_from_raw_data_to_network_interface h raw))) = h
   \<and> take (length h) (snd (snd (st_from_raw_data_to_instance h raw))) = h"
  using network_interface_frame [of "length h" h raw] instance_frame [of h raw] by simp

theorem raw_input_unchanged_witness:
  "take 8 (snd (snd (st_from_raw_data_to_instance (example_heap (SStr ''198.51.100.5'')) (SRef 7))))
     = example_heap (SStr ''198.51.100.5'')
   \<and> take 8 (snd (snd (st_from_raw_data_to_instance (example_heap (SStr [])) (SRef 7))))
     = example_heap (SStr [])
   \<and> take 8 (snd (snd (st_from_raw_data_to_network_interface (example_heap (SStr [])) (SRef 1))))
     = example_heap (SStr [])"
proof -
  have len: "length (example_heap v) = 8" for v
    by (simp add: example_heap_def)
  show ?thesis
    using raw_input_unchanged [of "example_heap (SStr ''198.51.100.5'')" "SRef 7"]
      raw_input_unchanged [of "example_heap (SStr [])" "SRef 7"]
      raw_input_unchanged [of "example_heap (SStr [])" "SRef 1"]
    by (simp only: len)
qed

text \<open>The two conversions of the example record on the store: with a valid public
  address three objects are added (the list, the interface, the instance); with an
  empty one the call raises after it has added the list and the interface.\<close>

lemma conversion_on_example_store:
  "st_from_raw_data_to_instance (example_heap (SStr ''198.51.100.5'')) (SRef 7)
     = (Inr (SRef 10), [],
        example_heap (SStr ''198.51.100.5'')
        @ [OList [SRef 9],
           OObject ''NetworkInterface''
             [(''ip_owner_id'', SStr ''o''), (''public_dns_name'', SStr []),
              (''mac_address'', SStr ''00:00''), (''network_interface_id'', SStr ''eni-1''),
              (''owner_id'', SStr ''o''), (''private_dns_name'', SStr []),
              (''subnet_id'', SStr ''s-1''), (''status'', SStr ''in-use''),
              (''public_ip_address'', SAddress (IPv4Address 3325256709)),
              (''ipv6_address'', SNone),
              (''private_ip_address'', SAddress (IPv4Address 167772165))],
           OObject ''Instance''
             [(''image_id'', SStr ''ami-1''), (''instance_id'', SStr ''i-1''),
              (''network_interfaces'', SRef 8), (''state'', SRef 3),
              (''launch_time'', SDatetime ''2021-03-04 05:06:07+00:00''), (''tags'', SRef 4),
              (''cpu_details'', SRef 5), (''instance_type'', SStr ''t2.micro''),
              (''security_groups'', SRef 6), (''client_token'', SStr []),
              (''state_transition_reason'', SStr []), (''root_device_name'', SStr ''/dev/sda1''),
              (''ram_disk_id'', SStr []), (''platform'', SStr []), (''kernel_id'', SStr []),
              (''Host_id'', SStr [])]])
   \<and> st_from_raw_data_to_instance (example_heap (SStr [])) (SRef 7)
     = (Inl ValueError, [],
        example_heap (SStr [])
        @ [OList [],
           OObject ''NetworkInterface''
             [(''ip_owner_id'', SStr ''o''), (''public_dns_name'', SStr []),
              (''mac_address'', SStr ''00:00''), (''network_interface_id'', SStr ''eni-1''),
              (''owner_id'', SStr ''o''), (''private_dns_name'', SStr []),
              (''subnet_id'', SStr ''s-1''), (''status'', SStr ''in-use''),
              (''public_ip_address'', SNone), (''ipv6_address'', SNone),
              (''private_ip_address'', SNone)]])"
  by code_simp

end
